theory Spec2Isabelle
  imports Complex_Main "HOL-Library.Sublist"
begin

section \<open>The AI input firewall (firewall.py, firewall\_gui.py)\<close>

text \<open>
  A shallow embedding of the decision pipeline of \<^verbatim>\<open>firewall.py\<close>: the rule filter
  \<^verbatim>\<open>rule_based_checks\<close>, the memoised classifier \<^verbatim>\<open>classify_input_with_ollama\<close>,
  the generator \<^verbatim>\<open>generate_ollama_response\<close>, the pipeline \<^verbatim>\<open>is_input_safe\<close> and the
  endpoint \<^verbatim>\<open>check_input\<close>, together with the blank-prompt guard of the two front ends.

  Texts are ASCII strings. Case mapping, trimming and the character classes of the regular
  expression are Python's on code points below 128; the Unicode behaviour of
  \<^verbatim>\<open>str.lower\<close>, \<^verbatim>\<open>str.upper\<close>, \<^verbatim>\<open>str.strip\<close> and \<^verbatim>\<open>re\<close> beyond ASCII is outside
  the model. The two language-model chains are external: what a call to one of them does
  (return a string, or raise) is a parameter of every operation, and each call that is
  really made is recorded. The \<^verbatim>\<open>print\<close> statements are left out.
\<close>

subsection \<open>Strings\<close>

definition ascii_uppercase :: string where
  "ascii_uppercase = ''ABCDEFGHIJKLMNOPQRSTUVWXYZ''"

definition ascii_lowercase :: string where
  "ascii_lowercase = ''abcdefghijklmnopqrstuvwxyz''"

definition digits :: string where
  "digits = ''0123456789''"

text \<open>\<^verbatim>\<open>str.isspace\<close> on one ASCII character: tab, line feed, vertical tab, form feed,
  carriage return, the four separators 0x1C to 0x1F, and the space.\<close>

definition whitespace :: string where
  "whitespace = [CHR 0x09, CHR 0x0A, CHR 0x0B, CHR 0x0C, CHR 0x0D,
                 CHR 0x1C, CHR 0x1D, CHR 0x1E, CHR 0x1F, CHR '' '']"

definition is_space :: "char \<Rightarrow> bool" where
  "is_space c = (c \<in> set whitespace)"

definition lower_char :: "char \<Rightarrow> char" where
  "lower_char c = (case map_of (zip ascii_uppercase ascii_lowercase) c of
                     Some l \<Rightarrow> l | None \<Rightarrow> c)"

definition upper_char :: "char \<Rightarrow> char" where
  "upper_char c = (case map_of (zip ascii_lowercase ascii_uppercase) c of
                     Some u \<Rightarrow> u | None \<Rightarrow> c)"

text \<open>\<^verbatim>\<open>s.lower()\<close>, \<^verbatim>\<open>s.upper()\<close> and \<^verbatim>\<open>s.strip()\<close>.\<close>

definition lower :: "string \<Rightarrow> string" where
  "lower s = map lower_char s"

definition upper :: "string \<Rightarrow> string" where
  "upper s = map upper_char s"

definition strip :: "string \<Rightarrow> string" where
  "strip s = rev (dropWhile is_space (rev (dropWhile is_space s)))"

text \<open>Python's \<^verbatim>\<open>w in s\<close> on strings is \<^const>\<open>sublist\<close>: \<open>w\<close> occurs in \<open>s\<close> as a
  contiguous block.\<close>

subsection \<open>The regular expression\<close>

text \<open>
  The constructs that \<^verbatim>\<open>SQL_INJECTION_REGEX\<close> is built from, under \<^verbatim>\<open>re.IGNORECASE\<close>:
  literal text, \<^verbatim>\<open>\s+\<close>, \<^verbatim>\<open>\b\<close>, concatenation and alternation. A cursor is the
  character just before the current position (if any) and the rest of the subject;
  \<open>rmatch\<close> lists the cursors at which a match starting at the given cursor may end, in
  the order a backtracking matcher tries them.
\<close>

datatype regex =
    Lit string
  | SpacePlus
  | WordB
  | Seq regex regex
  | Alt regex regex

type_synonym cursor = "char option \<times> string"

text \<open>\<^verbatim>\<open>\w\<close> on ASCII: letters, digits and the underscore.\<close>

definition is_word :: "char \<Rightarrow> bool" where
  "is_word c = (c \<in> set (ascii_lowercase @ ascii_uppercase @ digits @ ''_''))"

definition word_before :: "cursor \<Rightarrow> bool" where
  "word_before cur = (case fst cur of None \<Rightarrow> False | Some c \<Rightarrow> is_word c)"

definition word_after :: "cursor \<Rightarrow> bool" where
  "word_after cur = (case snd cur of [] \<Rightarrow> False | c # _ \<Rightarrow> is_word c)"

fun match_lit :: "string \<Rightarrow> cursor \<Rightarrow> cursor list" where
  "match_lit [] cur = [cur]"
| "match_lit (c # cs) (p, []) = []"
| "match_lit (c # cs) (p, x # xs) =
     (if lower_char x = lower_char c then match_lit cs (Some x, xs) else [])"

fun match_spaces :: "char option \<Rightarrow> string \<Rightarrow> cursor list" where
  "match_spaces p [] = []"
| "match_spaces p (x # xs) =
     (if is_space x then match_spaces (Some x) xs @ [(Some x, xs)] else [])"

fun rmatch :: "regex \<Rightarrow> cursor \<Rightarrow> cursor list" where
  "rmatch (Lit s) cur = match_lit s cur"
| "rmatch SpacePlus cur = match_spaces (fst cur) (snd cur)"
| "rmatch WordB cur = (if word_before cur \<noteq> word_after cur then [cur] else [])"
| "rmatch (Seq a b) cur = concat (map (rmatch b) (rmatch a cur))"
| "rmatch (Alt a b) cur = rmatch a cur @ rmatch b cur"

text \<open>\<^verbatim>\<open>pattern.search(text)\<close>, as a truth value: is there a match at some position.\<close>

fun search_from :: "regex \<Rightarrow> char option \<Rightarrow> string \<Rightarrow> bool" where
  "search_from r p [] = (rmatch r (p, []) \<noteq> [])"
| "search_from r p (x # xs) = (rmatch r (p, x # xs) \<noteq> [] \<or> search_from r (Some x) xs)"

definition re_search :: "regex \<Rightarrow> string \<Rightarrow> bool" where
  "re_search r s = search_from r None s"

subsection \<open>Configuration\<close>

definition BLOCKLIST :: "string set" where
  "BLOCKLIST = {''hack'', ''exploit'', ''malicious'', ''inject'', ''root''}"

text \<open>\<^verbatim>\<open>\b(DROP\s+TABLE|UNION\s+SELECT|INSERT\s+INTO|DELETE\s+FROM)\b\<close>\<close>

definition SQL_INJECTION_REGEX :: regex where
  "SQL_INJECTION_REGEX =
     Seq WordB
       (Seq (Alt (Seq (Lit ''DROP'') (Seq SpacePlus (Lit ''TABLE'')))
            (Alt (Seq (Lit ''UNION'') (Seq SpacePlus (Lit ''SELECT'')))
            (Alt (Seq (Lit ''INSERT'') (Seq SpacePlus (Lit ''INTO'')))
                 (Seq (Lit ''DELETE'') (Seq SpacePlus (Lit ''FROM''))))))
            WordB)"

definition CACHE_SIZE :: nat where
  "CACHE_SIZE = 1000"

definition CONFIDENCE_THRESHOLD :: real where
  "CONFIDENCE_THRESHOLD = 0.8"

subsection \<open>Data\<close>

text \<open>\<^verbatim>\<open>UserRequest\<close>; its field \<^verbatim>\<open>text\<close> is \<open>request_text\<close> here.\<close>

record UserRequest =
  request_text :: string
  user_id :: "string option"

text \<open>The dictionary that the classifier returns.\<close>

record classification =
  label :: string
  score :: real

text \<open>\<^verbatim>\<open>FirewallResponse\<close>; a key that the dictionary of \<^verbatim>\<open>is_input_safe\<close> leaves out
  is \<open>None\<close>, as the model's default makes it.\<close>

record FirewallResponse =
  status :: string
  reason :: "string option"
  score :: "real option"
  response :: "string option"

subsection \<open>The external chains and the state of the process\<close>

text \<open>What \<^verbatim>\<open>chain.run(text=...)\<close> does: raise something that \<^verbatim>\<open>except Exception\<close>
  catches (with its message), or return the model's reply, a string.\<close>

datatype outcome = Raised string | Returned string

record chains =
  classification_chain :: "string \<Rightarrow> outcome"
  response_chain :: "string \<Rightarrow> outcome"

datatype call = Classify string | Generate string

text \<open>
  The state: the store of \<^verbatim>\<open>lru_cache\<close> on \<^verbatim>\<open>classify_input_with_ollama\<close>, most
  recently used entry first, and the calls to the external chains made so far, oldest
  first.
\<close>

record world =
  cache :: "(string \<times> classification) list"
  calls :: "call list"

definition initial :: world where
  "initial = \<lparr>cache = [], calls = []\<rparr>"

subsection \<open>Core firewall logic\<close>

text \<open>The body of \<^verbatim>\<open>classify_input_with_ollama\<close>, which the decorator wraps.\<close>

definition classify_input_with_ollama_wrapped :: "chains \<Rightarrow> string \<Rightarrow> classification" where
  "classify_input_with_ollama_wrapped llm text =
     (case classification_chain llm text of
        Returned result \<Rightarrow>
          (let classification = upper (strip result)
           in \<lparr>label = classification,
               score = (if classification = ''UNSAFE'' then 1.0 else 0.0)\<rparr>)
      | Raised e \<Rightarrow> \<lparr>label = ''UNSAFE'', score = 1.0\<rparr>)"

text \<open>
  \<^verbatim>\<open>@lru_cache(maxsize=CACHE_SIZE)\<close>: the key is the argument string itself. A hit
  returns the stored value and makes the entry the most recent; a miss runs the body,
  stores whatever it returns, and drops the least recently used entry when the store is
  full.
\<close>

definition classify_input_with_ollama :: "chains \<Rightarrow> string \<Rightarrow> world \<Rightarrow> classification \<times> world" where
  "classify_input_with_ollama llm text w =
     (case map_of (cache w) text of
        Some r \<Rightarrow> (r, w\<lparr>cache := (text, r) # filter (\<lambda>e. fst e \<noteq> text) (cache w)\<rparr>)
      | None \<Rightarrow>
          (let r = classify_input_with_ollama_wrapped llm text;
               kept = (if CACHE_SIZE \<le> length (cache w) then butlast (cache w) else cache w)
           in (r, \<lparr>cache = (text, r) # kept, calls = calls w @ [Classify text]\<rparr>)))"

definition rule_based_checks :: "string \<Rightarrow> string option" where
  "rule_based_checks text =
     (let text_lower = lower text
      in if \<exists>word \<in> BLOCKLIST. sublist word text_lower
         then Some ''Blocked due to prohibited keyword.''
         else if re_search SQL_INJECTION_REGEX text
         then Some ''SQL injection attempt detected.''
         else None)"

definition generate_ollama_response :: "chains \<Rightarrow> string \<Rightarrow> world \<Rightarrow> string \<times> world" where
  "generate_ollama_response llm text w =
     (let w' = w\<lparr>calls := calls w @ [Generate text]\<rparr>
      in case response_chain llm text of
           Returned r \<Rightarrow> (if strip r = [] then ''No response generated.'' else strip r, w')
         | Raised e \<Rightarrow> (''Error generating response.'', w'))"

text \<open>Python's truth value of an \<^verbatim>\<open>Optional[str]\<close>.\<close>

definition truthy :: "string option \<Rightarrow> bool" where
  "truthy r = (case r of None \<Rightarrow> False | Some s \<Rightarrow> s \<noteq> [])"

definition is_input_safe :: "chains \<Rightarrow> string \<Rightarrow> world \<Rightarrow> FirewallResponse \<times> world" where
  "is_input_safe llm text w =
     (let rule_based_reason = rule_based_checks text
      in if truthy rule_based_reason
         then (\<lparr>status = ''blocked'', reason = rule_based_reason, score = None,
                response = Some ''This prompt is unsafe, can't answer.''\<rparr>, w)
         else
           (let (ai_result, w1) = classify_input_with_ollama llm text w
            in if label ai_result = ''UNSAFE''
                  \<and> classification.score ai_result > CONFIDENCE_THRESHOLD
               then (\<lparr>status = ''blocked'', reason = Some ''Ollama classified as unsafe'',
                      score = Some (classification.score ai_result),
                      response = Some ''This prompt is unsafe, can't answer.''\<rparr>, w1)
               else
                 (let (generated, w2) = generate_ollama_response llm text w1
                  in (\<lparr>status = ''allowed'', reason = None,
                       score = Some (classification.score ai_result),
                       response = Some generated\<rparr>, w2))))"

subsection \<open>The endpoint and the front ends\<close>

definition check_input :: "chains \<Rightarrow> UserRequest \<Rightarrow> world \<Rightarrow> FirewallResponse \<times> world" where
  "check_input llm request w = is_input_safe llm (request_text request) w"

text \<open>
  \<^verbatim>\<open>FirewallGUI.check_input\<close> of \<^verbatim>\<open>firewall_gui.py\<close>: a prompt that is blank after
  \<^verbatim>\<open>strip\<close> makes the method return at once; any other prompt is posted to the
  endpoint as \<^verbatim>\<open>{"text": prompt}\<close>.
\<close>

definition gui_check_input :: "string \<Rightarrow> UserRequest option" where
  "gui_check_input prompt =
     (if strip prompt = [] then None
      else Some \<lparr>request_text = prompt, user_id = None\<rparr>)"

text \<open>
  \<^verbatim>\<open>FirewallGUI.check_input\<close> of the stand-alone front end (the second half of
  \<^verbatim>\<open>firewall.py\<close>): a blank prompt raises a warning box and returns; any other prompt
  starts a \<^verbatim>\<open>LocalProcessWorker\<close> on it.
\<close>

datatype gui_action = Warning string string | StartWorker string

definition local_gui_check_input :: "string \<Rightarrow> gui_action" where
  "local_gui_check_input prompt =
     (if strip prompt = [] then Warning ''Input Required'' ''Please enter a prompt first.''
      else StartWorker prompt)"

subsection \<open>Observing a run\<close>

text \<open>The calls to the external chains made between two states of the process.\<close>

definition new_calls :: "world \<Rightarrow> world \<Rightarrow> call list" where
  "new_calls w w' = drop (length (calls w)) (calls w')"

text \<open>The process after serving a sequence of requests, each with the behaviour the
  external chains had while it was served.\<close>

fun serve :: "(chains \<times> string) list \<Rightarrow> world \<Rightarrow> world" where
  "serve [] w = w"
| "serve (r # rs) w = serve rs (snd (is_input_safe (fst r) (snd r) w))"

text \<open>Some behaviours of the external chains, for the concrete runs below.\<close>

definition outage :: chains where
  "outage = \<lparr>classification_chain = (\<lambda>_. Raised ''connection refused''),
             response_chain = (\<lambda>_. Returned ''Hello!'')\<rparr>"

definition says_safe :: chains where
  "says_safe = \<lparr>classification_chain = (\<lambda>_. Returned ''SAFE''),
                response_chain = (\<lambda>_. Returned ''Hello!'')\<rparr>"

definition says_unsafe :: chains where
  "says_unsafe = \<lparr>classification_chain = (\<lambda>_. Returned '' unsafe ''),
                  response_chain = (\<lambda>_. Returned ''Hello!'')\<rparr>"

definition says_maybe :: chains where
  "says_maybe = \<lparr>classification_chain = (\<lambda>_. Returned ''I think it is unsafe.''),
                 response_chain = (\<lambda>_. Returned ''Hello!'')\<rparr>"

definition case_sensitive :: chains where
  "case_sensitive =
     \<lparr>classification_chain = (\<lambda>t. if t = ''Hello'' then Returned ''SAFE'' else Returned ''UNSAFE''),
      response_chain = (\<lambda>_. Returned ''Hello!'')\<rparr>"

definition mute :: chains where
  "mute = \<lparr>classification_chain = (\<lambda>_. Returned ''SAFE''),
           response_chain = (\<lambda>_. Raised ''model not loaded'')\<rparr>"

text \<open>A state in which the store holds an UNSAFE verdict of middling score for \<open>hi\<close>.
  The classifier of this file never builds such a verdict; the state shows what the
  pipeline does with one.\<close>

definition lenient :: world where
  "lenient = \<lparr>cache = [(''hi'', \<lparr>label = ''UNSAFE'', score = 0.5\<rparr>)], calls = []\<rparr>"

text \<open>A text of whitespace only.\<close>

definition blank :: "string \<Rightarrow> bool" where
  "blank s = (\<forall>c \<in> set s. is_space c)"

text \<open>The shape of every result the body of the classifier builds, and the store
  holding only such results.\<close>

definition binary :: "classification \<Rightarrow> bool" where
  "binary r = (classification.score r = (if label r = ''UNSAFE'' then 1 else 0))"

definition cache_binary :: "world \<Rightarrow> bool" where
  "cache_binary w = (\<forall>e \<in> set (cache w). binary (snd e))"

section \<open>Properties\<close>

subsection \<open>Runs on concrete texts\<close>

lemma pattern_needs_word_boundaries:
  "re_search SQL_INJECTION_REGEX ''please DROP TABLE users''
   \<and> re_search SQL_INJECTION_REGEX [CHR ''d'', CHR ''r'', CHR ''o'', CHR ''p'', CHR 0x09, CHR 0x0A,
         CHR ''t'', CHR ''a'', CHR ''b'', CHR ''l'', CHR ''e'']
   \<and> \<not> re_search SQL_INJECTION_REGEX ''xDROP TABLE users''
   \<and> \<not> re_search SQL_INJECTION_REGEX ''DROP TABLEs''
   \<and> \<not> re_search SQL_INJECTION_REGEX ''DROPTABLE''"
  by code_simp

lemma run_drop_table:
  "is_input_safe says_safe ''please DROP TABLE users'' initial =
     (\<lparr>status = ''blocked'', reason = Some ''SQL injection attempt detected.'', score = None,
       response = Some ''This prompt is unsafe, can't answer.''\<rparr>, initial)"
  by code_simp

lemma run_hello:
  "is_input_safe says_safe ''hello, how are you?'' initial =
     (\<lparr>status = ''allowed'', reason = None, score = Some 0, response = Some ''Hello!''\<rparr>,
      \<lparr>cache = [(''hello, how are you?'', \<lparr>label = ''SAFE'', score = 0\<rparr>)],
       calls = [Classify ''hello, how are you?'', Generate ''hello, how are you?'']\<rparr>)"
  by code_simp

lemma run_unsafe_reply:
  "is_input_safe says_unsafe ''hello'' initial =
     (\<lparr>status = ''blocked'', reason = Some ''Ollama classified as unsafe'', score = Some 1,
       response = Some ''This prompt is unsafe, can't answer.''\<rparr>,
      \<lparr>cache = [(''hello'', \<lparr>label = ''UNSAFE'', score = 1\<rparr>)], calls = [Classify ''hello'']\<rparr>)"
  by code_simp

subsection \<open>The memoised classifier\<close>

lemma classify_hit:
  "map_of (cache w) text = Some r \<Longrightarrow>
   classify_input_with_ollama llm text w =
     (r, w\<lparr>cache := (text, r) # filter (\<lambda>e. fst e \<noteq> text) (cache w)\<rparr>)"
  by (simp add: classify_input_with_ollama_def)

lemma classify_miss:
  "map_of (cache w) text = None \<Longrightarrow>
   classify_input_with_ollama llm text w =
     (classify_input_with_ollama_wrapped llm text,
      \<lparr>cache = (text, classify_input_with_ollama_wrapped llm text)
                # (if CACHE_SIZE \<le> length (cache w) then butlast (cache w) else cache w),
       calls = calls w @ [Classify text]\<rparr>)"
  by (simp add: classify_input_with_ollama_def Let_def)

lemma new_calls_classify:
  "new_calls w (snd (classify_input_with_ollama llm text w)) =
     (if map_of (cache w) text = None then [Classify text] else [])"
  by (cases "map_of (cache w) text") (simp_all add: classify_hit classify_miss new_calls_def)

lemma wrapped_raised:
  "classification_chain llm text = Raised e \<Longrightarrow>
   classify_input_with_ollama_wrapped llm text = \<lparr>label = ''UNSAFE'', score = 1\<rparr>"
  by (simp add: classify_input_with_ollama_wrapped_def)

lemma cached_after_classify:
  "map_of (cache (snd (classify_input_with_ollama llm text w))) text =
     Some (fst (classify_input_with_ollama llm text w))"
  by (cases "map_of (cache w) text") (simp_all add: classify_hit classify_miss)

lemma new_calls_is_input_safe:
  "new_calls w (snd (is_input_safe llm text w)) =
     (if truthy (rule_based_checks text) then []
      else (if map_of (cache w) text = None then [Classify text] else []) @
           (if status (fst (is_input_safe llm text w)) = ''allowed'' then [Generate text] else []))"
  by (cases "map_of (cache w) text")
     (simp_all add: is_input_safe_def Let_def classify_hit classify_miss new_calls_def
        generate_ollama_response_def split: outcome.splits)

subsection \<open>Failure of the classifier\<close>

text \<open>
  Claim C1. Whenever the call to the external classification chain raises, the classifier
  returns the fail-safe result, label UNSAFE with score 1.0, and the pipeline, having made
  that call, returns a blocked decision with score 1.0 and the refusal message, without
  calling the generator: a failing classifier is never read as safe.
\<close>

theorem classifier_failure_fails_closed:
  assumes "classification_chain llm text = Raised e"
  shows "(Classify text \<in> set (new_calls w (snd (classify_input_with_ollama llm text w))) \<longrightarrow>
            fst (classify_input_with_ollama llm text w) = \<lparr>label = ''UNSAFE'', score = 1\<rparr>)
       \<and> (Classify text \<in> set (new_calls w (snd (is_input_safe llm text w))) \<longrightarrow>
            fst (is_input_safe llm text w) =
              \<lparr>status = ''blocked'', reason = Some ''Ollama classified as unsafe'',
               score = Some 1, response = Some ''This prompt is unsafe, can't answer.''\<rparr>
          \<and> Generate text \<notin> set (new_calls w (snd (is_input_safe llm text w))))"
proof (cases "map_of (cache w) text")
  case None
  have r: "classify_input_with_ollama llm text w =
             (\<lparr>label = ''UNSAFE'', score = 1\<rparr>,
              \<lparr>cache = (text, \<lparr>label = ''UNSAFE'', score = 1\<rparr>)
                 # (if CACHE_SIZE \<le> length (cache w) then butlast (cache w) else cache w),
               calls = calls w @ [Classify text]\<rparr>)"
    using None assms by (simp add: classify_miss wrapped_raised)
  show ?thesis
    by (simp add: r is_input_safe_def Let_def CONFIDENCE_THRESHOLD_def new_calls_def)
next
  case (Some r)
  then show ?thesis
    by (simp add: new_calls_classify new_calls_is_input_safe)
qed

theorem classifier_failure_fails_closed_witness:
  "classification_chain outage ''hi'' = Raised ''connection refused''
   \<and> Classify ''hi'' \<in> set (new_calls initial (snd (classify_input_with_ollama outage ''hi'' initial)))
   \<and> Classify ''hi'' \<in> set (new_calls initial (snd (is_input_safe outage ''hi'' initial)))
   \<and> fst (classify_input_with_ollama outage ''hi'' initial) = \<lparr>label = ''UNSAFE'', score = 1\<rparr>
   \<and> status (fst (is_input_safe outage ''hi'' initial)) = ''blocked''
   \<and> FirewallResponse.score (fst (is_input_safe outage ''hi'' initial)) = Some 1"
proof -
  have h1: "classification_chain outage ''hi'' = Raised ''connection refused''"
    by (simp add: outage_def)
  have h2: "Classify ''hi'' \<in> set (new_calls initial (snd (classify_input_with_ollama outage ''hi'' initial)))"
    by (simp add: new_calls_classify initial_def)
  have h3: "Classify ''hi'' \<in> set (new_calls initial (snd (is_input_safe outage ''hi'' initial)))"
    by code_simp
  show ?thesis
    using h1 h2 h3 classifier_failure_fails_closed [OF h1, of initial] by simp
qed

subsection \<open>The pipeline\<close>

lemma truthy_rule_based_checks:
  "truthy (rule_based_checks text) = (rule_based_checks text \<noteq> None)"
  by (simp add: truthy_def rule_based_checks_def Let_def)

lemma is_input_safe_rule_blocked:
  "rule_based_checks text = Some why \<Longrightarrow>
   is_input_safe llm text w =
     (\<lparr>status = ''blocked'', reason = Some why, score = None,
       response = Some ''This prompt is unsafe, can't answer.''\<rparr>, w)"
  using truthy_rule_based_checks [of "text"] by (simp add: is_input_safe_def Let_def)

lemma is_input_safe_rule_passed:
  "rule_based_checks text = None \<Longrightarrow>
   is_input_safe llm text w =
     (let (ai_result, w1) = classify_input_with_ollama llm text w
      in if label ai_result = ''UNSAFE'' \<and> classification.score ai_result > CONFIDENCE_THRESHOLD
         then (\<lparr>status = ''blocked'', reason = Some ''Ollama classified as unsafe'',
                score = Some (classification.score ai_result),
                response = Some ''This prompt is unsafe, can't answer.''\<rparr>, w1)
         else (let (generated, w2) = generate_ollama_response llm text w1
               in (\<lparr>status = ''allowed'', reason = None,
                    score = Some (classification.score ai_result),
                    response = Some generated\<rparr>, w2)))"
  by (simp add: is_input_safe_def truthy_def)

lemma generate_calls:
  "snd (generate_ollama_response llm text w) = w\<lparr>calls := calls w @ [Generate text]\<rparr>"
  by (simp add: generate_ollama_response_def Let_def split: outcome.splits)

lemma generate_nonempty: "fst (generate_ollama_response llm text w) \<noteq> []"
  by (simp add: generate_ollama_response_def Let_def split: outcome.splits)

lemma generate_raised:
  "response_chain llm text = Raised e \<Longrightarrow>
   fst (generate_ollama_response llm text w) = ''Error generating response.''"
  by (simp add: generate_ollama_response_def Let_def)

lemma blocklist_lower: "term \<in> BLOCKLIST \<Longrightarrow> lower term = term"
  by (auto simp: BLOCKLIST_def lower_def lower_char_def ascii_uppercase_def ascii_lowercase_def)

text \<open>
  Claim C3. A text that contains a denylist term, whatever the case of its letters, or
  that matches the dangerous pattern, is blocked with the refusal message, and no call to
  the external classifier or generator is made: the state of the process is unchanged.
\<close>

theorem rule_match_blocks_without_external_calls:
  assumes "(\<exists>term \<in> BLOCKLIST. sublist (lower term) (lower text))
           \<or> re_search SQL_INJECTION_REGEX text"
  shows "status (fst (is_input_safe llm text w)) = ''blocked''
       \<and> response (fst (is_input_safe llm text w)) = Some ''This prompt is unsafe, can't answer.''
       \<and> new_calls w (snd (is_input_safe llm text w)) = []
       \<and> snd (is_input_safe llm text w) = w"
proof -
  from assms have "(\<exists>word \<in> BLOCKLIST. sublist word (lower text))
           \<or> re_search SQL_INJECTION_REGEX text"
    by (auto simp: blocklist_lower)
  then have "rule_based_checks text \<noteq> None"
    by (auto simp: rule_based_checks_def Let_def)
  then obtain why where "rule_based_checks text = Some why"
    by auto
  then show ?thesis
    by (simp add: is_input_safe_rule_blocked new_calls_def)
qed

theorem rule_match_blocks_without_external_calls_witness:
  "(\<exists>term \<in> BLOCKLIST. sublist (lower term) (lower ''I will Hack you''))
   \<and> re_search SQL_INJECTION_REGEX ''please DROP TABLE users''
   \<and> status (fst (is_input_safe says_safe ''I will Hack you'' initial)) = ''blocked''
   \<and> new_calls initial (snd (is_input_safe says_safe ''I will Hack you'' initial)) = []
   \<and> status (fst (is_input_safe says_safe ''please DROP TABLE users'' initial)) = ''blocked''
   \<and> new_calls initial (snd (is_input_safe says_safe ''please DROP TABLE users'' initial)) = []"
proof -
  have h1: "\<exists>term \<in> BLOCKLIST. sublist (lower term) (lower ''I will Hack you'')"
    by code_simp
  have h2: "re_search SQL_INJECTION_REGEX ''please DROP TABLE users''"
    by code_simp
  show ?thesis
    using h1 h2
      rule_match_blocks_without_external_calls [OF disjI1, OF h1, of says_safe initial]
      rule_match_blocks_without_external_calls [OF disjI2, OF h2, of says_safe initial]
    by (simp add: new_calls_def)
qed

text \<open>
  Claim C4. For a text that passes the rule filter: when the classifier's result is
  UNSAFE with a score strictly above the threshold the decision is blocked; when the
  score is at or below the threshold, UNSAFE label or not, the pipeline goes on to
  generation and the decision is allowed.
\<close>

theorem threshold_gates_blocking:
  assumes "rule_based_checks text = None"
    and "classify_input_with_ollama llm text w = (ai_result, w1)"
  shows "(label ai_result = ''UNSAFE'' \<and> classification.score ai_result > CONFIDENCE_THRESHOLD \<longrightarrow>
            status (fst (is_input_safe llm text w)) = ''blocked''
          \<and> Generate text \<notin> set (new_calls w (snd (is_input_safe llm text w))))
       \<and> (classification.score ai_result \<le> CONFIDENCE_THRESHOLD \<longrightarrow>
            status (fst (is_input_safe llm text w)) = ''allowed''
          \<and> response (fst (is_input_safe llm text w))
              = Some (fst (generate_ollama_response llm text w1))
          \<and> Generate text \<in> set (new_calls w (snd (is_input_safe llm text w))))"
proof -
  have c: "calls w1 = calls w @ (if map_of (cache w) text = None then [Classify text] else [])"
    using assms(2) by (cases "map_of (cache w) text") (auto simp: classify_hit classify_miss)
  show ?thesis
    using assms c
    by (simp add: is_input_safe_rule_passed new_calls_def generate_calls split_beta)
qed


theorem threshold_gates_blocking_witness:
  "rule_based_checks ''hi'' = None
   \<and> fst (classify_input_with_ollama says_unsafe ''hi'' initial) = \<lparr>label = ''UNSAFE'', score = 1\<rparr>
   \<and> (1::real) > CONFIDENCE_THRESHOLD
   \<and> status (fst (is_input_safe says_unsafe ''hi'' initial)) = ''blocked''
   \<and> fst (classify_input_with_ollama says_safe ''hi'' initial) = \<lparr>label = ''SAFE'', score = 0\<rparr>
   \<and> (0::real) \<le> CONFIDENCE_THRESHOLD
   \<and> status (fst (is_input_safe says_safe ''hi'' initial)) = ''allowed''
   \<and> response (fst (is_input_safe says_safe ''hi'' initial)) = Some ''Hello!''
   \<and> fst (classify_input_with_ollama says_safe ''hi'' lenient) = \<lparr>label = ''UNSAFE'', score = 0.5\<rparr>
   \<and> (0.5::real) \<le> CONFIDENCE_THRESHOLD
   \<and> status (fst (is_input_safe says_safe ''hi'' lenient)) = ''allowed''
   \<and> response (fst (is_input_safe says_safe ''hi'' lenient)) = Some ''Hello!''"
proof -
  have h1: "rule_based_checks ''hi'' = None"
    by code_simp
  have h2: "classify_input_with_ollama says_unsafe ''hi'' initial =
              (\<lparr>label = ''UNSAFE'', score = 1\<rparr>,
               \<lparr>cache = [(''hi'', \<lparr>label = ''UNSAFE'', score = 1\<rparr>)], calls = [Classify ''hi'']\<rparr>)"
    by code_simp
  have h3: "classify_input_with_ollama says_safe ''hi'' initial =
              (\<lparr>label = ''SAFE'', score = 0\<rparr>,
               \<lparr>cache = [(''hi'', \<lparr>label = ''SAFE'', score = 0\<rparr>)], calls = [Classify ''hi'']\<rparr>)"
    by code_simp
  have h4: "classify_input_with_ollama says_safe ''hi'' lenient =
              (\<lparr>label = ''UNSAFE'', score = 0.5\<rparr>,
               \<lparr>cache = [(''hi'', \<lparr>label = ''UNSAFE'', score = 0.5\<rparr>)], calls = []\<rparr>)"
    by (simp add: lenient_def classify_input_with_ollama_def)
  have g3: "fst (generate_ollama_response says_safe ''hi''
             \<lparr>cache = [(''hi'', \<lparr>label = ''SAFE'', score = 0\<rparr>)], calls = [Classify ''hi'']\<rparr>) = ''Hello!''"
    by code_simp
  have g4: "fst (generate_ollama_response says_safe ''hi''
             \<lparr>cache = [(''hi'', \<lparr>label = ''UNSAFE'', score = 0.5\<rparr>)], calls = []\<rparr>) = ''Hello!''"
    by code_simp
  show ?thesis
    using h1 h2 h3 h4 g3 g4
      threshold_gates_blocking [OF h1 h2]
      threshold_gates_blocking [OF h1 h3]
      threshold_gates_blocking [OF h1 h4]
    by (simp add: CONFIDENCE_THRESHOLD_def)
qed

text \<open>
  Claim C5. Every decision is blocked or allowed. A blocked decision carries the fixed
  refusal message and the generator has not been called for it. An allowed decision
  carries a non-empty response, the fixed placeholder when generation raised; and what
  the generator does never changes the status.
\<close>

theorem decision_response_invariant:
  "(status (fst (is_input_safe llm text w)) = ''blocked''
      \<or> status (fst (is_input_safe llm text w)) = ''allowed'')
   \<and> (status (fst (is_input_safe llm text w)) = ''blocked'' \<longrightarrow>
        response (fst (is_input_safe llm text w)) = Some ''This prompt is unsafe, can't answer.''
      \<and> Generate text \<notin> set (new_calls w (snd (is_input_safe llm text w))))
   \<and> (status (fst (is_input_safe llm text w)) = ''allowed'' \<longrightarrow>
        (\<exists>r. response (fst (is_input_safe llm text w)) = Some r \<and> r \<noteq> [])
      \<and> (response_chain llm text = Raised e \<longrightarrow>
           response (fst (is_input_safe llm text w)) = Some ''Error generating response.''))
   \<and> status (fst (is_input_safe (llm\<lparr>response_chain := g\<rparr>) text w))
       = status (fst (is_input_safe llm text w))"
proof (cases "rule_based_checks text")
  case (Some why)
  then show ?thesis
    by (simp add: is_input_safe_rule_blocked new_calls_def)
next
  case None
  have same: "classify_input_with_ollama (llm\<lparr>response_chain := g\<rparr>) text w
                = classify_input_with_ollama llm text w"
    by (cases "map_of (cache w) text")
       (simp_all add: classify_hit classify_miss classify_input_with_ollama_wrapped_def)
  obtain ai_result w1 where r: "classify_input_with_ollama llm text w = (ai_result, w1)"
    by (cases "classify_input_with_ollama llm text w")
  have c: "calls w1 = calls w @ (if map_of (cache w) text = None then [Classify text] else [])"
    using r by (cases "map_of (cache w) text") (auto simp: classify_hit classify_miss)
  show ?thesis
    using None r c
    by (simp add: is_input_safe_rule_passed same new_calls_def split_beta generate_nonempty
          generate_raised)
qed

theorem decision_response_invariant_witness:
  "status (fst (is_input_safe outage ''hi'' initial)) = ''blocked''
   \<and> response (fst (is_input_safe outage ''hi'' initial)) = Some ''This prompt is unsafe, can't answer.''
   \<and> status (fst (is_input_safe mute ''hi'' initial)) = ''allowed''
   \<and> response_chain mute ''hi'' = Raised ''model not loaded''
   \<and> response (fst (is_input_safe mute ''hi'' initial)) = Some ''Error generating response.''"
proof -
  have h1: "status (fst (is_input_safe outage ''hi'' initial)) = ''blocked''"
    by code_simp
  have h2: "status (fst (is_input_safe mute ''hi'' initial)) = ''allowed''"
    by code_simp
  have h3: "response_chain mute ''hi'' = Raised ''model not loaded''"
    by (simp add: mute_def)
  show ?thesis
    using h1 h2 h3
      decision_response_invariant [of outage "''hi''" initial]
      decision_response_invariant [of mute "''hi''" initial "''model not loaded''"]
    by simp
qed


subsection \<open>What the store keeps\<close>

lemma map_of_kept:
  "map_of xs k = None \<Longrightarrow> map_of (butlast xs) k = None"
  by (induction xs) (auto split: if_splits)

lemma map_of_filter_other:
  "map_of xs k = None \<Longrightarrow> map_of (filter P xs) k = None"
  by (induction xs) (auto split: if_splits)

lemma other_key_still_absent:
  assumes "text' \<noteq> text" and "map_of (cache w) text' = None"
  shows "map_of (cache (snd (classify_input_with_ollama llm text w))) text' = None"
  using assms
  by (cases "map_of (cache w) text")
     (simp_all add: classify_hit classify_miss map_of_kept map_of_filter_other)

lemma classify_cached:
  "map_of (cache w) text = Some r \<Longrightarrow>
   fst (classify_input_with_ollama llm text w) = r
   \<and> new_calls w (snd (classify_input_with_ollama llm text w)) = []"
  by (simp add: classify_hit new_calls_def)

text \<open>
  Claim C2 says that the fail-safe result of a failed call is not stored, so that the
  next identical request calls the classifier again. The decorator stores whatever the
  body returns, and the body returns the fail-safe result like any other: after an
  outage the store holds UNSAFE with score 1.0 for the text, and a classifier that has
  recovered is not asked.
\<close>

theorem failure_result_is_cached_counterexample:
  "classification_chain outage ''hi'' = Raised ''connection refused''
   \<and> cache (snd (classify_input_with_ollama outage ''hi'' initial)) \<noteq> cache initial
   \<and> map_of (cache (snd (classify_input_with_ollama outage ''hi'' initial))) ''hi''
       = Some \<lparr>label = ''UNSAFE'', score = 1\<rparr>
   \<and> classification_chain says_safe ''hi'' = Returned ''SAFE''
   \<and> new_calls (snd (classify_input_with_ollama outage ''hi'' initial))
        (snd (classify_input_with_ollama says_safe ''hi''
               (snd (classify_input_with_ollama outage ''hi'' initial)))) = []
   \<and> fst (classify_input_with_ollama says_safe ''hi''
            (snd (classify_input_with_ollama outage ''hi'' initial)))
       = \<lparr>label = ''UNSAFE'', score = 1\<rparr>"
  by code_simp

text \<open>
  Claim C2, amended. When the call to the external classifier fails, the fail-safe result
  is stored under the text like any other result, and the next classification of the same
  text returns it from the store without calling the external classifier, whatever that
  classifier would answer by then.
\<close>

theorem failure_result_is_cached:
  assumes "classification_chain llm text = Raised e"
    and "Classify text \<in> set (new_calls w (snd (classify_input_with_ollama llm text w)))"
  shows "map_of (cache (snd (classify_input_with_ollama llm text w))) text
           = Some \<lparr>label = ''UNSAFE'', score = 1\<rparr>
       \<and> fst (classify_input_with_ollama llm' text (snd (classify_input_with_ollama llm text w)))
           = \<lparr>label = ''UNSAFE'', score = 1\<rparr>
       \<and> new_calls (snd (classify_input_with_ollama llm text w))
            (snd (classify_input_with_ollama llm' text (snd (classify_input_with_ollama llm text w))))
           = []"
proof -
  have miss: "map_of (cache w) text = None"
    using assms(2) by (simp add: new_calls_classify split: if_splits)
  have stored: "map_of (cache (snd (classify_input_with_ollama llm text w))) text
                  = Some \<lparr>label = ''UNSAFE'', score = 1\<rparr>"
    using miss assms(1) by (simp add: classify_miss wrapped_raised)
  show ?thesis
    using stored classify_cached [OF stored, where llm = llm'] by simp
qed

theorem failure_result_is_cached_witness:
  "classification_chain outage ''hi'' = Raised ''connection refused''
   \<and> Classify ''hi'' \<in> set (new_calls initial (snd (classify_input_with_ollama outage ''hi'' initial)))
   \<and> fst (classify_input_with_ollama says_safe ''hi''
            (snd (classify_input_with_ollama outage ''hi'' initial)))
       = \<lparr>label = ''UNSAFE'', score = 1\<rparr>
   \<and> new_calls (snd (classify_input_with_ollama outage ''hi'' initial))
        (snd (classify_input_with_ollama says_safe ''hi''
               (snd (classify_input_with_ollama outage ''hi'' initial)))) = []"
proof -
  have h1: "classification_chain outage ''hi'' = Raised ''connection refused''"
    by (simp add: outage_def)
  have h2: "Classify ''hi'' \<in> set (new_calls initial (snd (classify_input_with_ollama outage ''hi'' initial)))"
    by (simp add: new_calls_classify initial_def)
  show ?thesis
    using h1 h2 failure_result_is_cached [OF h1 h2, of says_safe] by simp
qed

text \<open>
  Claim C6 says that a reply which is neither SAFE nor UNSAFE after trimming and
  upper-casing is treated as UNSAFE with score 1.0 and blocked. The body takes any reply
  other than UNSAFE as it is, with score 0.0: such a text is allowed.
\<close>

theorem malformed_reply_fails_closed_counterexample:
  "classification_chain says_maybe ''hi'' = Returned ''I think it is unsafe.''
   \<and> upper (strip ''I think it is unsafe.'') \<noteq> ''SAFE''
   \<and> upper (strip ''I think it is unsafe.'') \<noteq> ''UNSAFE''
   \<and> rule_based_checks ''hi'' = None
   \<and> fst (classify_input_with_ollama says_maybe ''hi'' initial)
       = \<lparr>label = ''I THINK IT IS UNSAFE.'', score = 0\<rparr>
   \<and> fst (classify_input_with_ollama says_maybe ''hi'' initial) \<noteq> \<lparr>label = ''UNSAFE'', score = 1\<rparr>
   \<and> status (fst (is_input_safe says_maybe ''hi'' initial)) = ''allowed''
   \<and> status (fst (is_input_safe says_maybe ''hi'' initial)) \<noteq> ''blocked''"
  by code_simp

text \<open>
  Claim C6, amended. When the external classification call returns a reply that is
  neither SAFE nor UNSAFE after trimming and upper-casing, the classifier's result has
  that trimmed, upper-cased reply as its label and score 0.0, and the pipeline, having
  made that call, goes on to generation and returns an allowed decision with score 0.0.
\<close>

theorem malformed_reply_is_allowed:
  assumes "classification_chain llm text = Returned result"
    and "upper (strip result) \<noteq> ''SAFE''"
    and "upper (strip result) \<noteq> ''UNSAFE''"
  shows "(Classify text \<in> set (new_calls w (snd (classify_input_with_ollama llm text w))) \<longrightarrow>
            fst (classify_input_with_ollama llm text w) = \<lparr>label = upper (strip result), score = 0\<rparr>)
       \<and> (Classify text \<in> set (new_calls w (snd (is_input_safe llm text w))) \<longrightarrow>
            status (fst (is_input_safe llm text w)) = ''allowed''
          \<and> FirewallResponse.score (fst (is_input_safe llm text w)) = Some 0
          \<and> Generate text \<in> set (new_calls w (snd (is_input_safe llm text w))))"
proof (cases "map_of (cache w) text")
  case None
  have r: "classify_input_with_ollama llm text w =
             (\<lparr>label = upper (strip result), score = 0\<rparr>,
              \<lparr>cache = (text, \<lparr>label = upper (strip result), score = 0\<rparr>)
                 # (if CACHE_SIZE \<le> length (cache w) then butlast (cache w) else cache w),
               calls = calls w @ [Classify text]\<rparr>)"
    using None assms by (simp add: classify_miss classify_input_with_ollama_wrapped_def)
  show ?thesis
    using assms(3)
    by (simp add: r is_input_safe_def Let_def new_calls_def generate_calls split_beta)
next
  case (Some r)
  then show ?thesis
    by (simp add: new_calls_classify new_calls_is_input_safe)
qed

theorem malformed_reply_is_allowed_witness:
  "classification_chain says_maybe ''hi'' = Returned ''I think it is unsafe.''
   \<and> upper (strip ''I think it is unsafe.'') \<noteq> ''SAFE''
   \<and> upper (strip ''I think it is unsafe.'') \<noteq> ''UNSAFE''
   \<and> Classify ''hi'' \<in> set (new_calls initial (snd (classify_input_with_ollama says_maybe ''hi'' initial)))
   \<and> Classify ''hi'' \<in> set (new_calls initial (snd (is_input_safe says_maybe ''hi'' initial)))
   \<and> fst (classify_input_with_ollama says_maybe ''hi'' initial)
       = \<lparr>label = upper (strip ''I think it is unsafe.''), score = 0\<rparr>
   \<and> status (fst (is_input_safe says_maybe ''hi'' initial)) = ''allowed''"
proof -
  have h1: "classification_chain says_maybe ''hi'' = Returned ''I think it is unsafe.''"
    by (simp add: says_maybe_def)
  have h2: "upper (strip ''I think it is unsafe.'') \<noteq> ''SAFE''"
    by code_simp
  have h3: "upper (strip ''I think it is unsafe.'') \<noteq> ''UNSAFE''"
    by code_simp
  have h4: "Classify ''hi'' \<in> set (new_calls initial (snd (classify_input_with_ollama says_maybe ''hi'' initial)))"
    by (simp add: new_calls_classify initial_def)
  have h5: "Classify ''hi'' \<in> set (new_calls initial (snd (is_input_safe says_maybe ''hi'' initial)))"
    by code_simp
  show ?thesis
    using h1 h2 h3 h4 h5 malformed_reply_is_allowed [OF h1 h2 h3, of initial] by simp
qed

text \<open>
  Claim C7 says that two texts equal up to letter case and surrounding whitespace share
  one entry of the store. The key is the argument string as it is: after \<open>Hello\<close>,
  the text \<open>hello\<close> is a miss, the external classifier is called again and may
  answer differently.
\<close>

theorem cache_key_not_normalized_counterexample:
  "lower (strip ''Hello'') = lower (strip ''hello'')
   \<and> new_calls (snd (classify_input_with_ollama case_sensitive ''Hello'' initial))
        (snd (classify_input_with_ollama case_sensitive ''hello''
               (snd (classify_input_with_ollama case_sensitive ''Hello'' initial))))
       = [Classify ''hello'']
   \<and> fst (classify_input_with_ollama case_sensitive ''Hello'' initial)
       = \<lparr>label = ''SAFE'', score = 0\<rparr>
   \<and> fst (classify_input_with_ollama case_sensitive ''hello''
            (snd (classify_input_with_ollama case_sensitive ''Hello'' initial)))
       = \<lparr>label = ''UNSAFE'', score = 1\<rparr>"
  by code_simp

text \<open>
  Claim C7, amended. The store is keyed by the text exactly as passed. Classifying a text
  and then the same text again hits the entry: the second classification makes no
  external call and returns the same result. Any other text that was not stored before,
  also one differing only in letter case, is a miss and makes an external call.
\<close>

theorem cache_keyed_by_exact_text:
  "fst (classify_input_with_ollama llm' text (snd (classify_input_with_ollama llm text w)))
     = fst (classify_input_with_ollama llm text w)
   \<and> new_calls (snd (classify_input_with_ollama llm text w))
        (snd (classify_input_with_ollama llm' text (snd (classify_input_with_ollama llm text w))))
       = []
   \<and> (text' \<noteq> text \<and> map_of (cache w) text' = None \<longrightarrow>
        new_calls (snd (classify_input_with_ollama llm text w))
          (snd (classify_input_with_ollama llm' text' (snd (classify_input_with_ollama llm text w))))
         = [Classify text'])"
proof -
  have stored: "map_of (cache (snd (classify_input_with_ollama llm text w))) text
                  = Some (fst (classify_input_with_ollama llm text w))"
    by (rule cached_after_classify)
  show ?thesis
    using classify_cached [OF stored, where llm = llm']
      other_key_still_absent [of text' "text" w llm]
    by (simp add: new_calls_classify)
qed

theorem cache_keyed_by_exact_text_witness:
  "''hello'' \<noteq> ''Hello'' \<and> map_of (cache initial) ''hello'' = None
   \<and> fst (classify_input_with_ollama outage ''Hello''
            (snd (classify_input_with_ollama case_sensitive ''Hello'' initial)))
       = fst (classify_input_with_ollama case_sensitive ''Hello'' initial)
   \<and> new_calls (snd (classify_input_with_ollama case_sensitive ''Hello'' initial))
        (snd (classify_input_with_ollama outage ''Hello''
               (snd (classify_input_with_ollama case_sensitive ''Hello'' initial))))
       = []
   \<and> new_calls (snd (classify_input_with_ollama case_sensitive ''Hello'' initial))
        (snd (classify_input_with_ollama outage ''hello''
               (snd (classify_input_with_ollama case_sensitive ''Hello'' initial))))
       = [Classify ''hello'']"
proof -
  have h: "''hello'' \<noteq> ''Hello'' \<and> map_of (cache initial) ''hello'' = None"
    by (simp add: initial_def)
  show ?thesis
    using h cache_keyed_by_exact_text [of outage "''Hello''" case_sensitive initial "''hello''"]
    by simp
qed

subsection \<open>Blank input\<close>

lemma strip_empty_blank: "strip s = [] \<Longrightarrow> blank s"
proof -
  assume "strip s = []"
  then have a: "\<forall>c \<in> set (dropWhile is_space s). is_space c"
    by (simp add: strip_def)
  have "dropWhile is_space s = []"
  proof (rule ccontr)
    assume "dropWhile is_space s \<noteq> []"
    then have "hd (dropWhile is_space s) \<in> set (dropWhile is_space s)"
      and "\<not> is_space (hd (dropWhile is_space s))"
      by (simp_all add: hd_dropWhile)
    with a show False by blast
  qed
  then show ?thesis
    by (simp add: blank_def)
qed

lemma space_lower: "is_space c \<Longrightarrow> lower_char c = c"
  unfolding is_space_def whitespace_def lower_char_def ascii_uppercase_def ascii_lowercase_def
  by (elim disjE | simp)+


lemma space_not_word: "is_space c \<Longrightarrow> \<not> is_word c"
  unfolding is_space_def whitespace_def is_word_def ascii_uppercase_def ascii_lowercase_def
    digits_def
  by (elim disjE | simp)+

lemma blocklist_has_letter: "word \<in> BLOCKLIST \<Longrightarrow> \<exists>c \<in> set word. \<not> is_space c"
  unfolding BLOCKLIST_def is_space_def whitespace_def
  by (elim disjE | simp)+


lemma blank_no_keyword:
  assumes "blank s"
  shows "\<not> (\<exists>word \<in> BLOCKLIST. sublist word (lower s))"
proof
  assume "\<exists>word \<in> BLOCKLIST. sublist word (lower s)"
  then obtain word where w: "word \<in> BLOCKLIST" and sub: "sublist word (lower s)"
    by blast
  from w obtain c where c: "c \<in> set word" and ns: "\<not> is_space c"
    using blocklist_has_letter by blast
  from sub c have "c \<in> set (lower s)"
    using set_mono_sublist by blast
  then obtain d where "d \<in> set s" and "c = lower_char d"
    by (auto simp: lower_def)
  with assms ns show False
    by (auto simp: blank_def space_lower)
qed

lemma no_boundary_no_match:
  "\<not> word_before cur \<Longrightarrow> \<not> word_after cur \<Longrightarrow> rmatch SQL_INJECTION_REGEX cur = []"
  unfolding SQL_INJECTION_REGEX_def by simp

lemma blank_search_from:
  "blank s \<Longrightarrow> \<not> word_before (p, s) \<Longrightarrow> \<not> search_from SQL_INJECTION_REGEX p s"
proof (induction s arbitrary: p)
  case Nil
  then show ?case
    by (simp add: no_boundary_no_match word_after_def)
next
  case (Cons x xs)
  have x: "is_space x" and xs: "blank xs"
    using Cons.prems(1) by (simp_all add: blank_def)
  have "\<not> word_after (p, x # xs)"
    using x by (simp add: word_after_def space_not_word)
  with Cons.prems(2) have here: "rmatch SQL_INJECTION_REGEX (p, x # xs) = []"
    by (simp add: no_boundary_no_match)
  have "\<not> word_before (Some x, xs)"
    using x by (simp add: word_before_def space_not_word)
  with xs have "\<not> search_from SQL_INJECTION_REGEX (Some x) xs"
    by (rule Cons.IH)
  with here show ?case by simp
qed

lemma blank_rule_based_checks: "blank s \<Longrightarrow> rule_based_checks s = None"
  using blank_no_keyword [of s] blank_search_from [of s None]
  by (simp add: rule_based_checks_def Let_def re_search_def word_before_def)


text \<open>
  Claim C8 says that an empty or whitespace-only text raises a validation error before
  the pipeline runs, so that the rule filter and the classifier never see it. The
  endpoint hands the text of the request to the pipeline as it is: for three spaces the
  classifier and the generator are both called and a decision is returned.
\<close>

theorem blank_input_reaches_pipeline_counterexample:
  "strip ''   '' = []
   \<and> status (fst (check_input says_safe \<lparr>request_text = ''   '', user_id = None\<rparr> initial)) = ''allowed''
   \<and> response (fst (check_input says_safe \<lparr>request_text = ''   '', user_id = None\<rparr> initial))
       = Some ''Hello!''
   \<and> new_calls initial (snd (check_input says_safe \<lparr>request_text = ''   '', user_id = None\<rparr> initial))
       = [Classify ''   '', Generate ''   '']"
  by code_simp

text \<open>
  Claim C8, amended. An empty or whitespace-only prompt is stopped in the front ends
  only: the HTTP front end posts no request for it and the stand-alone front end shows a
  warning and starts no worker. The endpoint and the pipeline do not validate: given such
  a text, the rule filter runs and matches nothing, the classifier is consulted (and
  called when the text is not in the store), and a decision with the classifier's score
  is returned.
\<close>

theorem blank_input_stopped_by_front_end_only:
  assumes "strip text = []"
  shows "gui_check_input text = None
       \<and> local_gui_check_input text = Warning ''Input Required'' ''Please enter a prompt first.''
       \<and> rule_based_checks text = None
       \<and> FirewallResponse.score (fst (check_input llm \<lparr>request_text = text, user_id = u\<rparr> w))
           = Some (classification.score (fst (classify_input_with_ollama llm text w)))
       \<and> (map_of (cache w) text = None \<longrightarrow>
            Classify text \<in> set (new_calls w
              (snd (check_input llm \<lparr>request_text = text, user_id = u\<rparr> w))))"
proof -
  have r: "rule_based_checks text = None"
    using assms by (simp add: strip_empty_blank blank_rule_based_checks)
  have t: "\<not> truthy (rule_based_checks text)"
    using r by (simp add: truthy_def)
  show ?thesis
    using assms r t new_calls_is_input_safe [of w llm "text"]
    by (simp add: gui_check_input_def local_gui_check_input_def check_input_def
          is_input_safe_rule_passed split_beta)
qed

theorem blank_input_stopped_by_front_end_only_witness:
  "strip ''   '' = [] \<and> map_of (cache initial) ''   '' = None
   \<and> gui_check_input ''   '' = None
   \<and> rule_based_checks ''   '' = None
   \<and> Classify ''   '' \<in> set (new_calls initial
        (snd (check_input says_safe \<lparr>request_text = ''   '', user_id = None\<rparr> initial)))"
proof -
  have h1: "strip ''   '' = []"
    by code_simp
  have h2: "map_of (cache initial) ''   '' = None"
    by (simp add: initial_def)
  show ?thesis
    using h1 h2 blank_input_stopped_by_front_end_only [OF h1, of says_safe None initial]
    by simp
qed

subsection \<open>The reason of the rule filter\<close>

text \<open>
  Claim C9 says that the reason names every rule that matched. The rule filter returns
  at the first category that matches, keywords before the pattern: a text with a keyword
  and an SQL statement gets the keyword reason, the same as a text with the keyword
  alone.
\<close>

theorem rule_filter_reports_first_match_only_counterexample:
  "(\<exists>word \<in> BLOCKLIST. sublist word (lower ''hack DROP TABLE users''))
   \<and> re_search SQL_INJECTION_REGEX ''hack DROP TABLE users''
   \<and> rule_based_checks ''hack DROP TABLE users'' = Some ''Blocked due to prohibited keyword.''
   \<and> rule_based_checks ''hack the planet'' = Some ''Blocked due to prohibited keyword.''
   \<and> rule_based_checks ''DROP TABLE users'' = Some ''SQL injection attempt detected.''"
  by code_simp

text \<open>
  Claim C9, amended. For a text that contains a denylist term and also matches the
  dangerous pattern, the reason returned by the rule filter is the one of the first
  category checked, the keyword reason; the match of the pattern is not reported.
\<close>

theorem rule_filter_reports_first_match_only:
  assumes "\<exists>word \<in> BLOCKLIST. sublist word (lower text)"
    and "re_search SQL_INJECTION_REGEX text"
  shows "rule_based_checks text = Some ''Blocked due to prohibited keyword.''"
  using assms by (simp add: rule_based_checks_def Let_def)

theorem rule_filter_reports_first_match_only_witness:
  "(\<exists>word \<in> BLOCKLIST. sublist word (lower ''hack DROP TABLE users''))
   \<and> re_search SQL_INJECTION_REGEX ''hack DROP TABLE users''
   \<and> rule_based_checks ''hack DROP TABLE users'' = Some ''Blocked due to prohibited keyword.''"
proof -
  have h1: "\<exists>word \<in> BLOCKLIST. sublist word (lower ''hack DROP TABLE users'')"
    by code_simp
  have h2: "re_search SQL_INJECTION_REGEX ''hack DROP TABLE users''"
    by code_simp
  show ?thesis
    using h1 h2 rule_filter_reports_first_match_only [OF h1 h2] by simp
qed




subsection \<open>The score of a classification\<close>

lemma wrapped_binary: "binary (classify_input_with_ollama_wrapped llm text)"
  by (simp add: binary_def classify_input_with_ollama_wrapped_def Let_def split: outcome.splits)

lemma classify_binary:
  assumes "cache_binary w"
  shows "binary (fst (classify_input_with_ollama llm text w))"
    and "cache_binary (snd (classify_input_with_ollama llm text w))"
proof -
  show "binary (fst (classify_input_with_ollama llm text w))"
  proof (cases "map_of (cache w) text")
    case None
    then show ?thesis by (simp add: classify_miss wrapped_binary)
  next
    case (Some r)
    then have "(text, r) \<in> set (cache w)" by (rule map_of_SomeD)
    with assms have "binary r" by (auto simp: cache_binary_def)
    with Some show ?thesis by (simp add: classify_hit)
  qed
  then show "cache_binary (snd (classify_input_with_ollama llm text w))"
    using assms
    by (cases "map_of (cache w) text")
       (auto simp: classify_hit classify_miss cache_binary_def dest: in_set_butlastD)
qed

lemma cache_is_input_safe:
  "cache (snd (is_input_safe llm text w)) = cache w
   \<or> cache (snd (is_input_safe llm text w)) = cache (snd (classify_input_with_ollama llm text w))"
  by (simp add: is_input_safe_def Let_def split_beta generate_calls)

lemma is_input_safe_binary:
  "cache_binary w \<Longrightarrow> cache_binary (snd (is_input_safe llm text w))"
  using cache_is_input_safe [of llm "text" w] classify_binary(2) [of w llm "text"]
  by (auto simp: cache_binary_def)

lemma serve_binary: "cache_binary w \<Longrightarrow> cache_binary (serve history w)"
  by (induction history arbitrary: w) (simp_all add: is_input_safe_binary)

lemma initial_binary: "cache_binary initial"
  by (simp add: cache_binary_def initial_def)

text \<open>
  Claim C10. After any sequence of requests served from the start of the process, the
  score of a classification result, fresh or from the store, is 0.0 or 1.0; it is 1.0
  exactly when the label is UNSAFE, which includes the fallback on failure; so every
  UNSAFE classification is above the threshold of 0.8.
\<close>

theorem classification_score_is_binary:
  "(classification.score (fst (classify_input_with_ollama llm text (serve history initial))) = 0
      \<or> classification.score (fst (classify_input_with_ollama llm text (serve history initial))) = 1)
   \<and> (classification.score (fst (classify_input_with_ollama llm text (serve history initial))) = 1
        \<longleftrightarrow> label (fst (classify_input_with_ollama llm text (serve history initial))) = ''UNSAFE'')
   \<and> (label (fst (classify_input_with_ollama llm text (serve history initial))) = ''UNSAFE'' \<longrightarrow>
        classification.score (fst (classify_input_with_ollama llm text (serve history initial)))
          > CONFIDENCE_THRESHOLD)"
  using classify_binary(1) [OF serve_binary, OF initial_binary, of llm "text" history]
  by (simp add: binary_def CONFIDENCE_THRESHOLD_def split: if_splits)

theorem classification_score_is_binary_witness:
  "label (fst (classify_input_with_ollama says_safe ''hi'' (serve [(outage, ''hi'')] initial))) = ''UNSAFE''
   \<and> classification.score (fst (classify_input_with_ollama says_safe ''hi'' (serve [(outage, ''hi'')] initial)))
       > CONFIDENCE_THRESHOLD
   \<and> classification.score (fst (classify_input_with_ollama says_safe ''hi'' (serve [(outage, ''hi'')] initial)))
       = 1"
proof -
  have h: "label (fst (classify_input_with_ollama says_safe ''hi'' (serve [(outage, ''hi'')] initial))) = ''UNSAFE''"
    by code_simp
  show ?thesis
    using h classification_score_is_binary [of says_safe "''hi''" "[(outage, ''hi'')]"]
    by simp
qed

end
